theory Spec2Isabelle
  imports Complex_Main
begin

section \<open>Rasters of the imagery platform\<close>

text \<open>
  The program (\<^verbatim>\<open>app.py\<close>) builds its rasters from operations of the Earth Engine
  client: \<^verbatim>\<open>gt\<close>, \<^verbatim>\<open>lt\<close>, \<^verbatim>\<open>rename\<close>, \<^verbatim>\<open>selfMask\<close>, \<^verbatim>\<open>updateMask\<close>,
  \<^verbatim>\<open>normalizedDifference\<close>, \<^verbatim>\<open>clip\<close> and the \<^verbatim>\<open>mean\<close> reducer. These operations are not
  code of the program; they are modelled here per pixel, after the platform's documentation:

  \<^item> a single-band image has a band name and, at each pixel, either a value or no data
    (the pixel is masked): \<open>None\<close> is a masked pixel;
  \<^item> a comparison yields 1 where it holds and 0 where it does not, and is masked where
    its input is masked;
  \<^item> \<^verbatim>\<open>selfMask\<close> masks the pixels whose value is zero;
  \<^item> \<^verbatim>\<open>updateMask\<close> keeps a pixel only where the mask image has data and is not zero.

  Index values are real numbers: the model leaves the rounding of the platform's
  floating-point arithmetic out.
\<close>

type_synonym pixel = nat

record 'a image =
  band :: string
  px :: "pixel \<Rightarrow> 'a option"

text \<open>\<^verbatim>\<open>ee.Image.constant(v)\<close>: the image with the value \<open>v\<close> at every pixel.\<close>

definition constant_image :: "'a \<Rightarrow> 'a image" where
  "constant_image v = \<lparr>band = ''constant'', px = (\<lambda>p. Some v)\<rparr>"

text \<open>\<^verbatim>\<open>ee.Image()\<close> masked everywhere: an image with no data at any pixel.\<close>

definition no_data :: "'a image" where
  "no_data = \<lparr>band = ''constant'', px = (\<lambda>p. None)\<rparr>"

definition gt :: "real image \<Rightarrow> real \<Rightarrow> nat image" where
  "gt img threshold =
     \<lparr>band = band img,
      px = (\<lambda>p. case px img p of
                   None \<Rightarrow> None
                 | Some v \<Rightarrow> Some (if threshold < v then 1 else 0))\<rparr>"

definition lt :: "real image \<Rightarrow> real \<Rightarrow> nat image" where
  "lt img threshold =
     \<lparr>band = band img,
      px = (\<lambda>p. case px img p of
                   None \<Rightarrow> None
                 | Some v \<Rightarrow> Some (if v < threshold then 1 else 0))\<rparr>"

definition rename :: "'a image \<Rightarrow> string \<Rightarrow> 'a image" where
  "rename img name = img\<lparr>band := name\<rparr>"

definition selfMask :: "nat image \<Rightarrow> nat image" where
  "selfMask img =
     img\<lparr>px := (\<lambda>p. case px img p of
                        None \<Rightarrow> None
                      | Some v \<Rightarrow> if v = 0 then None else Some v)\<rparr>"

definition updateMask :: "'a image \<Rightarrow> nat image \<Rightarrow> 'a image" where
  "updateMask img msk =
     img\<lparr>px := (\<lambda>p. case px img p of
                        None \<Rightarrow> None
                      | Some v \<Rightarrow>
                          (case px msk p of
                             None \<Rightarrow> None
                           | Some k \<Rightarrow> if k = 0 then None else Some v))\<rparr>"

text \<open>A pixel is present in an image when it is not masked there.\<close>

definition unmasked :: "'a image \<Rightarrow> pixel \<Rightarrow> bool" where
  "unmasked img p = (px img p \<noteq> None)"

section \<open>Index and mask engine\<close>

text \<open>
  \<^verbatim>\<open>
  def water_mask(image, threshold):
      mask = image.gt(threshold).rename("water_mask").selfMask()
      return mask
  \<close>
\<close>

definition water_mask :: "real image \<Rightarrow> real \<Rightarrow> nat image" where
  "water_mask img threshold = selfMask (rename (gt img threshold) ''water_mask'')"

section \<open>Composition of the flood extent\<close>

text \<open>
  The main script derives three masks from the mean index composites of the two date
  ranges:
  \<^verbatim>\<open>
  perm_water = water_mask(preflood_mndwi, 0.01)
  flood_water = water_mask(postflood_mndwi, 0.01)
  notPermWaterMask = preflood_mndwi.lt(0.01).selfMask()
  flooded = flood_water.updateMask(notPermWaterMask)
  \<close>
\<close>

definition perm_water :: "real image \<Rightarrow> nat image" where
  "perm_water preflood_mndwi = water_mask preflood_mndwi 0.01"

definition flood_water :: "real image \<Rightarrow> nat image" where
  "flood_water postflood_mndwi = water_mask postflood_mndwi 0.01"

definition notPermWaterMask :: "real image \<Rightarrow> nat image" where
  "notPermWaterMask preflood_mndwi = selfMask (lt preflood_mndwi 0.01)"

definition flooded :: "real image \<Rightarrow> real image \<Rightarrow> nat image" where
  "flooded preflood_mndwi postflood_mndwi =
     updateMask (flood_water postflood_mndwi) (notPermWaterMask preflood_mndwi)"

section \<open>The water index\<close>

text \<open>
  \<^verbatim>\<open>normalizedDifference\<close> of two bands is \<open>(first - second) / (first + second)\<close>, in a band
  named \<^verbatim>\<open>nd\<close>. The platform masks the result where either input is masked and where either
  input is negative. Where the two inputs sum to zero the quotient is not defined; the model
  has no data there.
\<close>

type_synonym raster = "pixel \<Rightarrow> real option"

definition normalizedDifference :: "raster \<Rightarrow> raster \<Rightarrow> real image" where
  "normalizedDifference first second =
     \<lparr>band = ''nd'',
      px = (\<lambda>p. case first p of
                   None \<Rightarrow> None
                 | Some a \<Rightarrow>
                     (case second p of
                        None \<Rightarrow> None
                      | Some b \<Rightarrow>
                          if a < 0 \<or> b < 0 \<or> a + b = 0 then None
                          else Some ((a - b) / (a + b))))\<rparr>"

text \<open>
  A scene of the catalog \<^verbatim>\<open>COPERNICUS/S2_HARMONIZED\<close>, with the bands the program reads:
  blue, green, red and shortwave infrared.
\<close>

record s2_image =
  B2 :: raster
  B3 :: raster
  B4 :: raster
  B11 :: raster

text \<open>
  \<^verbatim>\<open>
  def calculate_mndwi(image):
      mndwi = image.normalizedDifference(['B3', 'B11']).rename('MNDWI')
      return image.addBands(mndwi)
  \<close>
  \<^verbatim>\<open>addBands\<close> extends the scene by the band \<^verbatim>\<open>MNDWI\<close>.
\<close>

record s2_mndwi_image = s2_image +
  MNDWI :: raster

definition addBands :: "s2_image \<Rightarrow> real image \<Rightarrow> s2_mndwi_image" where
  "addBands img mndwi = s2_image.extend img (s2_mndwi_image.fields (px mndwi))"

definition calculate_mndwi :: "s2_image \<Rightarrow> s2_mndwi_image" where
  "calculate_mndwi img =
     (let mndwi = rename (normalizedDifference (B3 img) (B11 img)) ''MNDWI''
      in addBands img mndwi)"

text \<open>\<^verbatim>\<open>select('MNDWI')\<close> on one image.\<close>

definition select_MNDWI :: "s2_mndwi_image \<Rightarrow> real image" where
  "select_MNDWI img = \<lparr>band = ''MNDWI'', px = MNDWI img\<rparr>"

text \<open>
  The \<^verbatim>\<open>mean\<close> reducer of a collection: at each pixel the mean of the values of the images
  that have data there, and no data where none has.
\<close>

definition mean_px :: "real option list \<Rightarrow> real option" where
  "mean_px xs =
     (let vs = List.map_filter (\<lambda>x. x) xs
      in if vs = [] then None else Some (sum_list vs / real (length vs)))"

definition mean_raster :: "raster list \<Rightarrow> raster" where
  "mean_raster rs = (\<lambda>p. mean_px (map (\<lambda>r. r p) rs))"

definition mean_image :: "string \<Rightarrow> real image list \<Rightarrow> real image" where
  "mean_image name imgs = \<lparr>band = name, px = mean_raster (map px imgs)\<rparr>"

definition mean_s2 :: "s2_image list \<Rightarrow> s2_image" where
  "mean_s2 imgs =
     \<lparr>B2 = mean_raster (map B2 imgs), B3 = mean_raster (map B3 imgs),
      B4 = mean_raster (map B4 imgs), B11 = mean_raster (map B11 imgs)\<rparr>"

text \<open>
  \<^verbatim>\<open>collection.map(calculate_mndwi).select('MNDWI').mean()\<close>, as the script computes
  \<^verbatim>\<open>preflood_mndwi\<close> and \<^verbatim>\<open>postflood_mndwi\<close>.
\<close>

definition mndwi_composite :: "s2_image list \<Rightarrow> real image" where
  "mndwi_composite collection =
     mean_image ''MNDWI'' (map select_MNDWI (map calculate_mndwi collection))"

section \<open>Imagery query\<close>

text \<open>
  A region of interest is the set of pixels it covers. \<^verbatim>\<open>clip\<close> masks every pixel of a
  scene that lies outside the region.
\<close>

type_synonym region = "pixel \<Rightarrow> bool"

definition clip_raster :: "raster \<Rightarrow> region \<Rightarrow> raster" where
  "clip_raster r roi = (\<lambda>p. if roi p then r p else None)"

definition clip :: "s2_image \<Rightarrow> region \<Rightarrow> s2_image" where
  "clip img roi =
     \<lparr>B2 = clip_raster (B2 img) roi, B3 = clip_raster (B3 img) roi,
      B4 = clip_raster (B4 img) roi, B11 = clip_raster (B11 img) roi\<rparr>"

text \<open>
  Dates come from the date pickers, whose years have four digits;
  \<^verbatim>\<open>strftime('%Y-%m-%d')\<close> writes the year with four digits and the month and the day with
  two.
\<close>

record date =
  year :: nat
  month :: nat
  day :: nat

definition digit :: "nat \<Rightarrow> char" where
  "digit n = ''0123456789'' ! (n mod 10)"

definition strftime :: "date \<Rightarrow> string" where
  "strftime d =
     [digit (year d div 1000), digit (year d div 100), digit (year d div 10), digit (year d)]
     @ ''-'' @ [digit (month d div 10), digit (month d)]
     @ ''-'' @ [digit (day d div 10), digit (day d)]"

text \<open>
  The remote catalog answers a query: the scenes of the collection between the two dates
  (\<^verbatim>\<open>filterDate\<close>) that meet the region (\<^verbatim>\<open>filterBounds\<close>). What the catalog holds is not
  part of the program, so the catalog is a parameter.
\<close>

type_synonym catalog = "string \<Rightarrow> string \<Rightarrow> region \<Rightarrow> s2_image list"

text \<open>Messages shown to the user: \<^verbatim>\<open>st.error\<close> and \<^verbatim>\<open>st.warning\<close>.\<close>

datatype message = Error string | Warning string

text \<open>The dictionaries of visualisation parameters; a key that is absent is \<open>None\<close>.\<close>

record vis_params =
  bands :: "string list option"
  vmin :: "real option"
  vmax :: "real option"
  palette :: "string list option"
  color :: "string option"

definition no_vis :: vis_params where
  "no_vis = \<lparr>bands = None, vmin = None, vmax = None, palette = None, color = None\<rparr>"

text \<open>
  \<^verbatim>\<open>visualize(**vis_params)\<close> is kept as the request it is on the client: the composite and
  the parameters it is to be rendered with.
\<close>

record visualization =
  source :: s2_image
  params :: vis_params

definition visualize :: "s2_image \<Rightarrow> vis_params \<Rightarrow> visualization" where
  "visualize img vp = \<lparr>source = img, params = vp\<rparr>"

text \<open>
  \<^verbatim>\<open>
  def get_S2(roi, start_date, end_date):
      start_date_str = start_date.strftime('%Y-%m-%d')
      end_date_str = end_date.strftime('%Y-%m-%d')
      dataset = ee.ImageCollection("COPERNICUS/S2_HARMONIZED") \
          .filterDate(ee.Date(start_date_str), ee.Date(end_date_str)) \
          .filterBounds(roi)
      s2_clipped = dataset.map(lambda image: image.clip(roi))
      if s2_clipped.size().getInfo() == 0:
          st.warning(f"No Sentinel-2 images found for the selected date range: "
                     f"{start_date_str} to {end_date_str}")
          return None, None
      vis_params = {'bands': ['B4', 'B3', 'B2'], 'min': 0, 'max': 3000}
      return s2_clipped.mean().visualize(**vis_params), s2_clipped
  \<close>
  The result is the returned pair together with the messages emitted.
\<close>

definition no_images_found :: "string \<Rightarrow> string \<Rightarrow> string" where
  "no_images_found start_date_str end_date_str =
     ''No Sentinel-2 images found for the selected date range: ''
     @ start_date_str @ '' to '' @ end_date_str"

definition get_S2 ::
  "catalog \<Rightarrow> region \<Rightarrow> date \<Rightarrow> date
     \<Rightarrow> (visualization option \<times> s2_image list option) \<times> message list" where
  "get_S2 cat roi start_date end_date =
     (let start_date_str = strftime start_date;
          end_date_str = strftime end_date;
          dataset = cat start_date_str end_date_str roi;
          s2_clipped = map (\<lambda>img. clip img roi) dataset
      in if length s2_clipped = 0 then
           ((None, None),
            [Warning (no_images_found start_date_str end_date_str)])
         else
           (let vp = no_vis\<lparr>bands := Some [''B4'', ''B3'', ''B2''],
                             vmin := Some 0, vmax := Some 3000\<rparr>
            in ((Some (visualize (mean_s2 s2_clipped) vp), Some s2_clipped), [])))"

section \<open>Boundary loader\<close>

text \<open>
  Failures the program does not handle end the render pass; the program has no handler
  anywhere. Those of the local library calls are values of \<open>fault\<close>: the upload cannot be
  opened as a ZIP archive (\<^verbatim>\<open>BadZipFile\<close>), a member cannot be extracted (\<^verbatim>\<open>OSError\<close>, with
  its subclasses \<^verbatim>\<open>NotADirectoryError\<close> and \<^verbatim>\<open>IsADirectoryError\<close>, or \<^verbatim>\<open>EOFError\<close>), the
  geometry file cannot be read, the boundary cannot be reprojected, and an attribute is
  looked up on \<^verbatim>\<open>None\<close>.
\<close>

datatype fault =
  BadZipFile | OSError | EOFError | ReadFileError | CRSError | AttributeError

text \<open>
  An upload is either unreadable as an archive or an archive, described by what the library
  calls of the loader yield on it:
  \<^item> \<open>namelist\<close>, the list of member names;
  \<^item> \<open>extractall\<close>, the outcome of \<^verbatim>\<open>zip_ref.extractall(tmpdirname)\<close>: \<open>None\<close> when every
    member is written, or the fault it raises. Extraction fails on archives that open
    without error: a member \<^verbatim>\<open>a/b.txt\<close> after a file member \<^verbatim>\<open>a\<close>, a member name longer
    than the file system allows, or a member named \<^verbatim>\<open>shapefile.zip\<close>, which is written over
    the copy of the upload that the loader saved under that name in the same directory;
  \<^item> \<open>read_file\<close>, what \<^verbatim>\<open>gpd.read_file\<close> yields on an extracted member: a boundary
    (\<open>'g\<close>, the GeoDataFrame) or a fault.
\<close>

datatype 'g zip_file =
  Unreadable
  | Zip (namelist: "string list") (extractall: "fault option")
        (read_file: "string \<Rightarrow> fault + 'g")

text \<open>\<^verbatim>\<open>file.endswith(suffix)\<close>\<close>

definition endswith :: "string \<Rightarrow> string \<Rightarrow> bool" where
  "endswith s suf = (length suf \<le> length s \<and> drop (length s - length suf) s = suf)"

text \<open>The test \<^verbatim>\<open>if shp_file:\<close> holds for a string that is neither \<^verbatim>\<open>None\<close> nor empty.\<close>

definition truthy :: "string option \<Rightarrow> bool" where
  "truthy x = (case x of None \<Rightarrow> False | Some s \<Rightarrow> s \<noteq> [])"

text \<open>
  \<^verbatim>\<open>
  def load_shapefile_from_zip(zip_file):
      with tempfile.TemporaryDirectory() as tmpdirname:
          ...
          with zipfile.ZipFile(zip_path, 'r') as zip_ref:
              zip_ref.extractall(tmpdirname)
          shp_file = None
          for file in zip_ref.namelist():
              if file.endswith(".shp"):
                  shp_file = file
                  break
          if shp_file:
              study_extent = gpd.read_file(os.path.join(tmpdirname, shp_file))
              return study_extent
          else:
              st.error("Shapefile (.shp) not found in the uploaded ZIP file.")
              return None
  \<close>
  The archive is extracted before its member names are scanned, so a fault of the
  extraction ends the loader whatever the names are. The loop stops at the first member
  name that ends in \<^verbatim>\<open>.shp\<close>.
\<close>

definition load_shapefile_from_zip ::
  "'g zip_file \<Rightarrow> fault + ('g option \<times> message list)" where
  "load_shapefile_from_zip zip_file =
     (case zip_file of
        Unreadable \<Rightarrow> Inl BadZipFile
      | Zip names extracted rd \<Rightarrow>
          (case extracted of
             Some e \<Rightarrow> Inl e
           | None \<Rightarrow>
               (let shp_file = find (\<lambda>file. endswith file ''.shp'') names
                in if truthy shp_file then
                     (case rd (the shp_file) of
                        Inl e \<Rightarrow> Inl e
                      | Inr study_extent \<Rightarrow> Inr (Some study_extent, []))
                   else
                     Inr (None,
                          [Error ''Shapefile (.shp) not found in the uploaded ZIP file.'']))))"

section \<open>Map presenter and main script\<close>

text \<open>What \<^verbatim>\<open>Map.addLayer\<close> is given: the region, a rendered composite, or a mask.\<close>

datatype ee_object =
  FeatureCollection region
  | Visualized visualization
  | Mask "nat image"

record layer =
  ee_object :: ee_object
  vis :: vis_params
  lname :: string

text \<open>
  The map widget, \<^verbatim>\<open>geemap.Map(center=..., zoom=...)\<close>, with the layers the program adds
  and its legend (title and entries).
\<close>

record map_widget =
  center :: "real \<times> real"
  zoom :: nat
  layers :: "layer list"
  legend :: "(string \<times> (string \<times> string) list) option"

definition new_Map :: "real \<times> real \<Rightarrow> nat \<Rightarrow> map_widget" where
  "new_Map c z = \<lparr>center = c, zoom = z, layers = [], legend = None\<rparr>"

definition addLayer :: "map_widget \<Rightarrow> ee_object \<Rightarrow> vis_params \<Rightarrow> string \<Rightarrow> map_widget" where
  "addLayer m obj vp name =
     m\<lparr>layers := layers m @ [\<lparr>ee_object = obj, vis = vp, lname = name\<rparr>]\<rparr>"

definition add_legend :: "map_widget \<Rightarrow> string \<Rightarrow> (string \<times> string) list \<Rightarrow> map_widget" where
  "add_legend m title legend_dict = m\<lparr>legend := Some (title, legend_dict)\<rparr>"

definition layer_names :: "map_widget \<Rightarrow> string list" where
  "layer_names m = map lname (layers m)"

definition default_lat :: real where "default_lat = 0"
definition default_lon :: real where "default_lon = 0"
definition default_zoom :: nat where "default_zoom = 2"

definition water_Viz :: vis_params where
  "water_Viz = no_vis\<lparr>vmin := Some 0.0, vmax := Some 0.9,
                       palette := Some [''#f7fbff'', ''#1452d9'']\<rparr>"

text \<open>
  The calls into the geometry libraries, as parameters: \<^verbatim>\<open>to_crs(epsg=...)\<close>, which may
  fail, \<^verbatim>\<open>geemap.geopandas_to_ee\<close>, and the means of the centroid coordinates.
\<close>

record 'g geo =
  to_crs :: "'g \<Rightarrow> nat \<Rightarrow> fault + 'g"
  geopandas_to_ee :: "'g \<Rightarrow> region"
  centroid_y_mean :: "'g \<Rightarrow> real"
  centroid_x_mean :: "'g \<Rightarrow> real"

text \<open>The inputs of the sidebar: the uploaded file, if any, and the two date ranges.\<close>

record 'g inputs =
  uploaded_zip :: "'g zip_file option"
  start_date :: date
  end_date :: date
  start_date_post :: date
  end_date_post :: date

text \<open>What a render pass shows: the map and the messages.\<close>

record outcome =
  Map :: map_widget
  messages :: "message list"

text \<open>
  The script from the first query on (lines 143 to 186), given the region and the map that
  already holds the boundary layer:
  \<^verbatim>\<open>
  pre_rgb_layer, s2_preflood_clipped = get_S2(roi, start_date, end_date)
  if pre_rgb_layer is not None:
      Map.addLayer(pre_rgb_layer, {}, "Pre-flood RGB")
      preflood_mndwi = s2_preflood_clipped.map(calculate_mndwi).select('MNDWI').mean()
      perm_water = water_mask(preflood_mndwi, 0.01)
      post_rgb_layer, s2_postflood_clipped = get_S2(roi, start_date_post, end_date_post)
      if post_rgb_layer is not None:
          Map.addLayer(post_rgb_layer, {}, "Post-flood RGB")
          postflood_mndwi = s2_postflood_clipped.map(calculate_mndwi).select('MNDWI').mean()
          ...
          Map.addLayer(flooded, water_Viz, "Flood Extent")
          Map.add_legend(title="Flood Extent", legend_dict={"Flooded Areas": "#1452d9"})
  \<close>
  Only the first component of each pair is tested; calling \<^verbatim>\<open>map\<close> on a second component
  that is \<^verbatim>\<open>None\<close> would raise. The script computes \<^verbatim>\<open>perm_water\<close> and the dictionary
  \<^verbatim>\<open>mndwi_Viz\<close> and uses neither afterwards, so they do not appear in the result.
\<close>

definition flood_layers ::
  "catalog \<Rightarrow> region \<Rightarrow> 'g inputs \<Rightarrow> map_widget \<Rightarrow> fault + outcome" where
  "flood_layers cat roi inp Map1 =
     (case get_S2 cat roi (start_date inp) (end_date inp) of
        ((pre_rgb_layer, s2_preflood_clipped), msgs1) \<Rightarrow>
          (case pre_rgb_layer of
             None \<Rightarrow> Inr \<lparr>Map = Map1, messages = msgs1\<rparr>
           | Some pre_rgb \<Rightarrow>
               (let Map2 = addLayer Map1 (Visualized pre_rgb) no_vis ''Pre-flood RGB''
                in case s2_preflood_clipped of
                     None \<Rightarrow> Inl AttributeError
                   | Some s2_pre \<Rightarrow>
                       (let preflood_mndwi = mndwi_composite s2_pre
                        in case get_S2 cat roi (start_date_post inp) (end_date_post inp) of
                             ((post_rgb_layer, s2_postflood_clipped), msgs2) \<Rightarrow>
                               (case post_rgb_layer of
                                  None \<Rightarrow> Inr \<lparr>Map = Map2, messages = msgs1 @ msgs2\<rparr>
                                | Some post_rgb \<Rightarrow>
                                    (let Map3 = addLayer Map2 (Visualized post_rgb) no_vis
                                                  ''Post-flood RGB''
                                     in case s2_postflood_clipped of
                                          None \<Rightarrow> Inl AttributeError
                                        | Some s2_post \<Rightarrow>
                                            (let postflood_mndwi = mndwi_composite s2_post;
                                                 Map4 = addLayer Map3
                                                          (Mask (flooded preflood_mndwi
                                                                   postflood_mndwi))
                                                          water_Viz ''Flood Extent'';
                                                 Map5 = add_legend Map4 ''Flood Extent''
                                                          [(''Flooded Areas'', ''#1452d9'')]
                                             in Inr \<lparr>Map = Map5,
                                                     messages = msgs1 @ msgs2\<rparr>)))))))"

text \<open>
  The whole render pass (lines 85 to 188):
  \<^verbatim>\<open>
  Map = geemap.Map(center=[default_lat, default_lon], zoom=default_zoom)
  if uploaded_zip is not None:
      study_extent = load_shapefile_from_zip(uploaded_zip)
      if study_extent is not None:
          study_extent = study_extent.to_crs(epsg=4326)
          roi = geemap.geopandas_to_ee(study_extent)
          Map = geemap.Map(center=[...centroid.y.mean(), ...centroid.x.mean()], zoom=9)
          Map.addLayer(roi, {'color': 'red'}, "AOI")
          ...
  Map.to_streamlit()
  \<close>
\<close>

definition app :: "'g geo \<Rightarrow> catalog \<Rightarrow> 'g inputs \<Rightarrow> fault + outcome" where
  "app g cat inp =
     (let Map0 = new_Map (default_lat, default_lon) default_zoom
      in case uploaded_zip inp of
           None \<Rightarrow> Inr \<lparr>Map = Map0, messages = []\<rparr>
         | Some zf \<Rightarrow>
             (case load_shapefile_from_zip zf of
                Inl e \<Rightarrow> Inl e
              | Inr (loaded, msgs0) \<Rightarrow>
                  (case loaded of
                     None \<Rightarrow> Inr \<lparr>Map = Map0, messages = msgs0\<rparr>
                   | Some study_extent0 \<Rightarrow>
                       (case to_crs g study_extent0 4326 of
                          Inl e \<Rightarrow> Inl e
                        | Inr study_extent \<Rightarrow>
                            (let roi = geopandas_to_ee g study_extent;
                                 Map1 = addLayer
                                          (new_Map (centroid_y_mean g study_extent,
                                                    centroid_x_mean g study_extent) 9)
                                          (FeatureCollection roi)
                                          (no_vis\<lparr>color := Some ''red''\<rparr>) ''AOI''
                             in case flood_layers cat roi inp Map1 of
                                  Inl e \<Rightarrow> Inl e
                                | Inr out \<Rightarrow>
                                    Inr (out\<lparr>messages := msgs0 @ messages out\<rparr>))))))"

text \<open>The names of the layers a render pass shows; none when the pass ends in a fault.\<close>

definition shown_layers :: "fault + outcome \<Rightarrow> string list" where
  "shown_layers r = (case r of Inl e \<Rightarrow> [] | Inr out \<Rightarrow> layer_names (Map out))"

section \<open>Example inputs\<close>

text \<open>
  The date pickers start at 2024-01-23 to 2024-01-24 for the pre-flood range and at
  2024-11-23 to 2024-11-24 for the post-flood range.
\<close>

definition default_inputs :: "'g zip_file option \<Rightarrow> 'g inputs" where
  "default_inputs up =
     \<lparr>uploaded_zip = up,
      start_date = \<lparr>year = 2024, month = 1, day = 23\<rparr>,
      end_date = \<lparr>year = 2024, month = 1, day = 24\<rparr>,
      start_date_post = \<lparr>year = 2024, month = 11, day = 23\<rparr>,
      end_date_post = \<lparr>year = 2024, month = 11, day = 24\<rparr>\<rparr>"

text \<open>A scene with the same reflectances at every pixel; its index is \<open>1 / 2\<close>.\<close>

definition example_scene :: s2_image where
  "example_scene =
     \<lparr>B2 = (\<lambda>p. Some 400), B3 = (\<lambda>p. Some 3000),
      B4 = (\<lambda>p. Some 500), B11 = (\<lambda>p. Some 1000)\<rparr>"

text \<open>
  A catalog with no scene at all, one with a single scene in the default post-flood range,
  and one with a single scene in the default pre-flood range.
\<close>

definition empty_catalog :: catalog where
  "empty_catalog start_str end_str roi = []"

definition november_catalog :: catalog where
  "november_catalog start_str end_str roi =
     (if start_str = ''2024-11-23'' \<and> end_str = ''2024-11-24'' then [example_scene] else [])"

definition january_catalog :: catalog where
  "january_catalog start_str end_str roi =
     (if start_str = ''2024-01-23'' \<and> end_str = ''2024-01-24'' then [example_scene] else [])"

text \<open>A region of four pixels, and a boundary type that is the region it covers.\<close>

definition example_roi :: region where
  "example_roi p = (p < 4)"

definition example_geo :: "region geo" where
  "example_geo =
     \<lparr>to_crs = (\<lambda>b epsg. Inr b), geopandas_to_ee = (\<lambda>b. b),
      centroid_y_mean = (\<lambda>b. 0), centroid_x_mean = (\<lambda>b. 0)\<rparr>"

text \<open>
  An archive with the five components of a shapefile, and one without the geometry file;
  both extract without a fault.
\<close>

definition example_zip :: "region zip_file" where
  "example_zip =
     Zip [''aoi.cpg'', ''aoi.dbf'', ''aoi.prj'', ''aoi.shp'', ''aoi.shx''] None
         (\<lambda>file. Inr example_roi)"

text \<open>The default dates with nothing uploaded.\<close>

definition no_upload :: "region inputs" where
  "no_upload = default_inputs None"

definition no_shp_zip :: "region zip_file" where
  "no_shp_zip =
     Zip [''aoi.dbf'', ''aoi.prj'', ''notes.txt''] None (\<lambda>file. Inl ReadFileError)"

text \<open>
  An archive with a file member \<^verbatim>\<open>a\<close> followed by a member \<^verbatim>\<open>a/b.txt\<close>, and no geometry
  file. It opens without error; extracting \<^verbatim>\<open>a/b.txt\<close> needs a directory \<^verbatim>\<open>a\<close> where the
  file \<^verbatim>\<open>a\<close> was just written, and raises \<^verbatim>\<open>NotADirectoryError\<close>, an \<^verbatim>\<open>OSError\<close>.
\<close>

definition nested_zip :: "region zip_file" where
  "nested_zip = Zip [''a'', ''a/b.txt''] (Some OSError) (\<lambda>file. Inl ReadFileError)"

section \<open>Pixelwise characterisations\<close>

lemma px_water_mask:
  "px (water_mask img threshold) p =
     (case px img p of
        None \<Rightarrow> None
      | Some v \<Rightarrow> if threshold < v then Some 1 else None)"
  by (simp add: water_mask_def selfMask_def rename_def gt_def split: option.splits)

lemma px_notPermWaterMask:
  "px (notPermWaterMask img) p =
     (case px img p of
        None \<Rightarrow> None
      | Some v \<Rightarrow> if v < 0.01 then Some 1 else None)"
  by (simp add: notPermWaterMask_def selfMask_def lt_def split: option.splits)

lemma px_flooded:
  "px (flooded pre post) p =
     (case px post p of
        None \<Rightarrow> None
      | Some w \<Rightarrow>
          (case px pre p of
             None \<Rightarrow> None
           | Some v \<Rightarrow> if 0.01 < w \<and> v < 0.01 then Some 1 else None))"
  by (simp add: flooded_def flood_water_def updateMask_def px_water_mask px_notPermWaterMask
      split: option.splits)

lemma px_mndwi:
  "px (select_MNDWI (calculate_mndwi img)) p = px (normalizedDifference (B3 img) (B11 img)) p"
  by (simp add: select_MNDWI_def calculate_mndwi_def addBands_def rename_def
      s2_image.extend_def s2_mndwi_image.fields_def)

lemma normalized_difference_bounds:
  fixes a b :: real
  assumes "0 \<le> a" and "0 \<le> b" and "a + b \<noteq> 0"
  shows "- 1 \<le> (a - b) / (a + b) \<and> (a - b) / (a + b) \<le> 1"
proof -
  from assms have pos: "0 < a + b" by simp
  from assms pos show ?thesis
    by (simp add: divide_le_eq le_divide_eq)
qed

section \<open>The query and the script, case by case\<close>

lemma get_S2_empty:
  "cat (strftime s) (strftime e) roi = [] \<Longrightarrow>
   get_S2 cat roi s e = ((None, None), [Warning (no_images_found (strftime s) (strftime e))])"
  by (simp add: get_S2_def)

lemma get_S2_nonempty:
  "cat (strftime s) (strftime e) roi \<noteq> [] \<Longrightarrow>
   \<exists>rgb. get_S2 cat roi s e
            = ((Some rgb, Some (map (\<lambda>img. clip img roi) (cat (strftime s) (strftime e) roi))),
               [])"
  by (simp add: get_S2_def Let_def)

lemma flood_layers_pre_empty:
  "cat (strftime (start_date inp)) (strftime (end_date inp)) roi = [] \<Longrightarrow>
   flood_layers cat roi inp M
     = Inr \<lparr>Map = M,
            messages = [Warning (no_images_found (strftime (start_date inp))
                                                  (strftime (end_date inp)))]\<rparr>"
  by (simp add: flood_layers_def get_S2_empty)

lemma flood_layers_post_empty:
  assumes "cat (strftime (start_date inp)) (strftime (end_date inp)) roi \<noteq> []"
    and "cat (strftime (start_date_post inp)) (strftime (end_date_post inp)) roi = []"
  shows "\<exists>rgb. flood_layers cat roi inp M
           = Inr \<lparr>Map = addLayer M (Visualized rgb) no_vis ''Pre-flood RGB'',
                  messages = [Warning (no_images_found (strftime (start_date_post inp))
                                                        (strftime (end_date_post inp)))]\<rparr>"
proof -
  from get_S2_nonempty [of cat "start_date inp" "end_date inp" roi] assms(1)
  obtain rgb coll where
    "get_S2 cat roi (start_date inp) (end_date inp) = ((Some rgb, Some coll), [])"
    by blast
  then show ?thesis
    using get_S2_empty [of cat "start_date_post inp" "end_date_post inp" roi] assms(2)
    by (auto simp: flood_layers_def Let_def)
qed

lemma flood_layers_both:
  assumes "cat (strftime (start_date inp)) (strftime (end_date inp)) roi \<noteq> []"
    and "cat (strftime (start_date_post inp)) (strftime (end_date_post inp)) roi \<noteq> []"
  shows "\<exists>out. flood_layers cat roi inp M = Inr out \<and> messages out = []
           \<and> layer_names (Map out)
               = layer_names M @ [''Pre-flood RGB'', ''Post-flood RGB'', ''Flood Extent'']"
proof -
  from get_S2_nonempty [of cat "start_date inp" "end_date inp" roi] assms(1)
  obtain rgb coll where
    a: "get_S2 cat roi (start_date inp) (end_date inp) = ((Some rgb, Some coll), [])"
    by blast
  from get_S2_nonempty [of cat "start_date_post inp" "end_date_post inp" roi] assms(2)
  obtain rgb2 coll2 where
    b: "get_S2 cat roi (start_date_post inp) (end_date_post inp)
          = ((Some rgb2, Some coll2), [])"
    by blast
  show ?thesis
    by (simp add: flood_layers_def a b Let_def layer_names_def addLayer_def add_legend_def)
qed

lemma flood_layers_returns: "\<exists>out. flood_layers cat roi inp M = Inr out"
proof (cases "cat (strftime (start_date inp)) (strftime (end_date inp)) roi = []")
  case True
  then show ?thesis by (simp add: flood_layers_pre_empty)
next
  case pre: False
  show ?thesis
  proof (cases "cat (strftime (start_date_post inp)) (strftime (end_date_post inp)) roi = []")
    case True
    from flood_layers_post_empty [of cat inp roi M] pre True show ?thesis by blast
  next
    case False
    from flood_layers_both [of cat inp roi M] pre False show ?thesis by blast
  qed
qed

lemma load_no_shp:
  assumes "\<forall>file \<in> set names. \<not> endswith file ''.shp''"
  shows "load_shapefile_from_zip (Zip names None rd)
           = Inr (None, [Error ''Shapefile (.shp) not found in the uploaded ZIP file.''])"
proof -
  from assms have "find (\<lambda>file. endswith file ''.shp'') names = None"
    by (simp add: find_None_iff)
  then show ?thesis
    by (simp add: load_shapefile_from_zip_def truthy_def)
qed

section \<open>Flood mask\<close>

text \<open>
  Claim C1, as stated: a pixel is in the flood mask iff it is in the post-event water mask
  and was not classified as water pre-event. This fails where the pre-event index is
  exactly the cutoff: with a pre-event index of 0.01 and a post-event index of 0.5 the
  pixel is post-event water and is not permanent water, yet it is not in the flood mask,
  because the complement is taken as "strictly less than 0.01".
\<close>

theorem flooded_set_difference_counterexample:
  "\<not> (unmasked (flooded (constant_image 0.01) (constant_image 0.5)) 0
       = (unmasked (flood_water (constant_image 0.5)) 0
          \<and> \<not> unmasked (perm_water (constant_image 0.01)) 0))"
  by (simp add: unmasked_def px_flooded flood_water_def perm_water_def px_water_mask
      constant_image_def)

text \<open>
  Claim C1, amended: for every pair of pre-event and post-event composites, a pixel is in
  the flood mask iff it is in the post-event water mask and its pre-event index has data
  and is strictly less than 0.01.
\<close>

theorem flooded_iff:
  "unmasked (flooded pre post) p
     = (unmasked (flood_water post) p \<and> (\<exists>v. px pre p = Some v \<and> v < 0.01))"
  by (simp add: unmasked_def px_flooded flood_water_def px_water_mask split: option.splits)

theorem flooded_iff_witness:
  "unmasked (flooded (constant_image 0) (constant_image 0.5)) 0
   \<and> unmasked (flood_water (constant_image 0.5)) 0
   \<and> \<not> unmasked (flooded (constant_image 0.3) (constant_image 0.5)) 0
   \<and> \<not> unmasked (flooded no_data (constant_image 0.5)) 0"
  using flooded_iff [of "constant_image 0" "constant_image 0.5" 0]
    flooded_iff [of "constant_image 0.3" "constant_image 0.5" 0]
    flooded_iff [of no_data "constant_image 0.5" 0]
  by (simp add: unmasked_def flood_water_def px_water_mask constant_image_def no_data_def)

text \<open>
  Claim C2: the flood mask is a subset of the post-event water mask. Every pixel present in
  the flood mask is present in the post-event water mask, with the same value.
\<close>

theorem flooded_subset_flood_water:
  "unmasked (flooded pre post) p \<Longrightarrow>
     unmasked (flood_water post) p \<and> px (flooded pre post) p = px (flood_water post) p"
  by (simp add: unmasked_def px_flooded flood_water_def px_water_mask
      split: option.splits if_splits)

theorem flooded_subset_flood_water_witness:
  "unmasked (flooded (constant_image 0) (constant_image 0.5)) 7
   \<and> unmasked (flood_water (constant_image 0.5)) 7
   \<and> px (flooded (constant_image 0) (constant_image 0.5)) 7
       = px (flood_water (constant_image 0.5)) 7"
proof -
  have h: "unmasked (flooded (constant_image 0) (constant_image 0.5)) 7"
    by (simp add: unmasked_def px_flooded constant_image_def)
  show ?thesis
    using h flooded_subset_flood_water [OF h] by simp
qed

text \<open>
  Claim C3: a pixel whose pre-event index is strictly greater than 0.01 is classified as
  permanent water and is never present in the flood mask, whatever the post-event
  composite.
\<close>

theorem permanent_water_never_flooded:
  "px pre p = Some v \<Longrightarrow> 0.01 < v \<Longrightarrow>
     unmasked (perm_water pre) p \<and> \<not> unmasked (flooded pre post) p"
  by (simp add: unmasked_def px_flooded perm_water_def px_water_mask split: option.splits)

theorem permanent_water_never_flooded_witness:
  "px (constant_image (0.3::real)) 2 = Some 0.3 \<and> (0.01::real) < 0.3
   \<and> unmasked (perm_water (constant_image 0.3)) 2
   \<and> \<not> unmasked (flooded (constant_image 0.3) (constant_image 0.5)) 2"
proof -
  have h1: "px (constant_image (0.3::real)) 2 = Some 0.3"
    by (simp add: constant_image_def)
  have h2: "(0.01::real) < 0.3" by simp
  show ?thesis
    using h1 h2 permanent_water_never_flooded [OF h1 h2, of "constant_image 0.5"] by simp
qed

section \<open>Water mask and water index\<close>

text \<open>
  Claim C7: for every index image and threshold, the water mask holds exactly the pixels
  whose index value is strictly greater than the threshold; every other pixel is masked,
  and no pixel of the mask carries the value zero.
\<close>

theorem water_mask_strictly_greater:
  "(unmasked (water_mask img threshold) p = (\<exists>v. px img p = Some v \<and> threshold < v))
   \<and> px (water_mask img threshold) p \<noteq> Some 0"
  by (simp add: unmasked_def px_water_mask split: option.splits)

theorem water_mask_strictly_greater_witness:
  "unmasked (water_mask (constant_image 0.5) 0.01) 3
   \<and> \<not> unmasked (water_mask (constant_image 0.01) 0.01) 3
   \<and> px (water_mask (constant_image 0.01) 0.01) 3 \<noteq> Some 0"
proof -
  have a: "\<exists>v. px (constant_image (0.5::real)) 3 = Some v \<and> 0.01 < v"
    by (rule exI [of _ "0.5"]) (simp add: constant_image_def)
  have b: "\<not> (\<exists>v. px (constant_image (0.01::real)) 3 = Some v \<and> 0.01 < v)"
    by (simp add: constant_image_def)
  from a b water_mask_strictly_greater [of "constant_image 0.5" "0.01" 3]
    water_mask_strictly_greater [of "constant_image 0.01" "0.01" 3]
  show ?thesis by blast
qed

text \<open>
  Claim C8: for every scene, the normalized difference of the green band B3 and the
  shortwave-infrared band B11, \<open>(B3 - B11) / (B3 + B11)\<close>, lies in the closed interval from
  -1 to 1 at every pixel where it has a value.
\<close>

theorem mndwi_in_range:
  "px (select_MNDWI (calculate_mndwi img)) p = Some v \<Longrightarrow> - 1 \<le> v \<and> v \<le> 1"
proof -
  assume v: "px (select_MNDWI (calculate_mndwi img)) p = Some v"
  have eq: "px (select_MNDWI (calculate_mndwi img)) p
              = px (normalizedDifference (B3 img) (B11 img)) p"
    by (simp add: px_mndwi)
  from v eq have "\<exists>a b. 0 \<le> a \<and> 0 \<le> b \<and> a + b \<noteq> 0 \<and> v = (a - b) / (a + b)"
    by (auto simp: normalizedDifference_def not_less split: option.splits if_splits)
  then obtain a b where ab: "0 \<le> a" "0 \<le> b" "a + b \<noteq> 0" "v = (a - b) / (a + b)"
    by blast
  from normalized_difference_bounds [OF ab(1) ab(2) ab(3)] ab(4) show ?thesis by simp
qed

theorem mndwi_in_range_witness:
  "px (select_MNDWI (calculate_mndwi example_scene)) 5 = Some (1 / 2)
   \<and> - 1 \<le> (1 / 2 :: real) \<and> (1 / 2 :: real) \<le> 1"
proof -
  have h: "px (select_MNDWI (calculate_mndwi example_scene)) 5 = Some (1 / 2)"
    by (simp add: px_mndwi normalizedDifference_def example_scene_def)
  show ?thesis
    using h mndwi_in_range [OF h] by simp
qed

section \<open>Empty query results\<close>

text \<open>
  Claim C4: when the filtered collection of a region and date range is empty, the query
  function returns \<open>None\<close> for both the visual composite and the collection and emits a
  warning, and the script adds no layer for that range: with the pre-flood range empty the
  map is left with the layers it had; with the post-flood range empty the map gains at most
  the pre-flood layer.
\<close>

theorem empty_collection_no_layer:
  assumes "cat (strftime s) (strftime e) roi = []"
  shows "get_S2 cat roi s e
           = ((None, None), [Warning (no_images_found (strftime s) (strftime e))])
         \<and> (start_date inp = s \<and> end_date inp = e \<longrightarrow>
              (\<exists>out. flood_layers cat roi inp M = Inr out \<and> layers (Map out) = layers M))
         \<and> (start_date_post inp = s \<and> end_date_post inp = e \<longrightarrow>
              (\<exists>out. flood_layers cat roi inp M = Inr out
                 \<and> (layer_names (Map out) = layer_names M
                    \<or> layer_names (Map out) = layer_names M @ [''Pre-flood RGB''])))"
proof (intro conjI impI)
  show "get_S2 cat roi s e
          = ((None, None), [Warning (no_images_found (strftime s) (strftime e))])"
    using assms by (rule get_S2_empty)
next
  assume "start_date inp = s \<and> end_date inp = e"
  with assms have "cat (strftime (start_date inp)) (strftime (end_date inp)) roi = []"
    by simp
  then show "\<exists>out. flood_layers cat roi inp M = Inr out \<and> layers (Map out) = layers M"
    by (simp add: flood_layers_pre_empty)
next
  assume "start_date_post inp = s \<and> end_date_post inp = e"
  with assms have
    post: "cat (strftime (start_date_post inp)) (strftime (end_date_post inp)) roi = []"
    by simp
  show "\<exists>out. flood_layers cat roi inp M = Inr out
          \<and> (layer_names (Map out) = layer_names M
             \<or> layer_names (Map out) = layer_names M @ [''Pre-flood RGB''])"
  proof (cases "cat (strftime (start_date inp)) (strftime (end_date inp)) roi = []")
    case True
    then show ?thesis by (simp add: flood_layers_pre_empty)
  next
    case False
    from flood_layers_post_empty [of cat inp roi M] False post show ?thesis
      by (auto simp: layer_names_def addLayer_def)
  qed
qed

theorem empty_collection_no_layer_witness:
  "empty_catalog (strftime (start_date no_upload))
                 (strftime (end_date no_upload)) example_roi = []
   \<and> get_S2 empty_catalog example_roi (start_date no_upload)
                                        (end_date no_upload)
       = ((None, None), [Warning (no_images_found ''2024-01-23'' ''2024-01-24'')])
   \<and> empty_catalog (strftime (start_date_post no_upload))
                   (strftime (end_date_post no_upload)) example_roi = []
   \<and> get_S2 empty_catalog example_roi (start_date_post no_upload)
                                        (end_date_post no_upload)
       = ((None, None), [Warning (no_images_found ''2024-11-23'' ''2024-11-24'')])
   \<and> shown_layers (flood_layers empty_catalog example_roi no_upload
                     (new_Map (0, 0) 9)) = []"
proof -
  have h: "empty_catalog a b example_roi = []" for a b
    by (simp add: empty_catalog_def)
  have pre: "strftime (start_date no_upload) = ''2024-01-23''"
            "strftime (end_date no_upload) = ''2024-01-24''"
    by (simp_all add: no_upload_def default_inputs_def strftime_def digit_def)
  have post: "strftime (start_date_post no_upload) = ''2024-11-23''"
             "strftime (end_date_post no_upload) = ''2024-11-24''"
    by (simp_all add: no_upload_def default_inputs_def strftime_def digit_def)
  note a = empty_collection_no_layer [of empty_catalog "start_date no_upload"
      "end_date no_upload" example_roi no_upload "new_Map (0, 0) 9",
      OF h]
  note b = empty_collection_no_layer [of empty_catalog "start_date_post no_upload"
      "end_date_post no_upload" example_roi no_upload
      "new_Map (0, 0) 9", OF h]
  from a obtain out where
    out: "flood_layers empty_catalog example_roi no_upload (new_Map (0, 0) 9)
            = Inr out"
      "layers (Map out) = layers (new_Map (0, 0) 9)"
    by blast
  have none: "layers (new_Map (0, 0) 9) = []"
    by (simp add: new_Map_def)
  have shown: "shown_layers (flood_layers empty_catalog example_roi no_upload
                 (new_Map (0, 0) 9)) = []"
    by (simp add: out none shown_layers_def layer_names_def)
  have ga: "get_S2 empty_catalog example_roi (start_date no_upload)
              (end_date no_upload)
              = ((None, None), [Warning (no_images_found ''2024-01-23'' ''2024-01-24'')])"
    using a by (simp only: pre)
  have gb: "get_S2 empty_catalog example_roi (start_date_post no_upload)
              (end_date_post no_upload)
              = ((None, None), [Warning (no_images_found ''2024-11-23'' ''2024-11-24'')])"
    using b by (simp only: post)
  from h ga gb shown show ?thesis
    by blast
qed

text \<open>
  Claim C5, as stated: an empty result for one date range skips only that range's
  derivation, so an empty pre-event result does not prevent the post-event composite layer
  from being added when the post-event query has data. This fails: with the default dates
  and a catalog that has a scene in the post-flood range and none in the pre-flood range,
  the render pass shows the boundary layer only.
\<close>

theorem post_layer_after_empty_pre_counterexample:
  "\<not> (november_catalog (strftime (start_date (default_inputs (Some example_zip))))
                        (strftime (end_date (default_inputs (Some example_zip))))
                        example_roi = []
        \<and> november_catalog (strftime (start_date_post (default_inputs (Some example_zip))))
                           (strftime (end_date_post (default_inputs (Some example_zip))))
                           example_roi \<noteq> []
        \<longrightarrow> ''Post-flood RGB''
              \<in> set (shown_layers (app example_geo november_catalog
                                       (default_inputs (Some example_zip)))))"
proof -
  have dates:
    "strftime (start_date (default_inputs (Some example_zip))) = ''2024-01-23''"
    "strftime (end_date (default_inputs (Some example_zip))) = ''2024-01-24''"
    "strftime (start_date_post (default_inputs (Some example_zip))) = ''2024-11-23''"
    "strftime (end_date_post (default_inputs (Some example_zip))) = ''2024-11-24''"
    by (simp_all add: no_upload_def default_inputs_def strftime_def digit_def)
  have load: "load_shapefile_from_zip example_zip = Inr (Some example_roi, [])"
    by (simp add: load_shapefile_from_zip_def example_zip_def endswith_def truthy_def)
  have pre: "november_catalog
               (strftime (start_date (default_inputs (Some example_zip))))
               (strftime (end_date (default_inputs (Some example_zip)))) example_roi = []"
    by (simp add: dates november_catalog_def)
  have "shown_layers (app example_geo november_catalog (default_inputs (Some example_zip)))
          = [''AOI'']"
    using flood_layers_pre_empty [of november_catalog "default_inputs (Some example_zip)"
        example_roi, OF pre]
    by (simp add: app_def load example_geo_def shown_layers_def layer_names_def
        addLayer_def new_Map_def default_inputs_def)
  then show ?thesis
    by (simp add: dates november_catalog_def)
qed

text \<open>
  Claim C5, amended: when the query of a date range returns the no-data sentinel, the
  layers already added remain and everything the script does after that query is skipped.
  An empty pre-event result leaves the map as it was before the query, whether or not the
  post-event range has data; an empty post-event result after a pre-event result with data
  leaves the map with the pre-flood layer added and nothing else. In both cases the only
  message is the warning for the empty range.
\<close>

theorem empty_query_skips_the_rest:
  "(cat (strftime (start_date inp)) (strftime (end_date inp)) roi = [] \<longrightarrow>
      flood_layers cat roi inp M
        = Inr \<lparr>Map = M,
               messages = [Warning (no_images_found (strftime (start_date inp))
                                                     (strftime (end_date inp)))]\<rparr>)
   \<and> (cat (strftime (start_date inp)) (strftime (end_date inp)) roi \<noteq> []
      \<and> cat (strftime (start_date_post inp)) (strftime (end_date_post inp)) roi = [] \<longrightarrow>
      (\<exists>rgb. flood_layers cat roi inp M
         = Inr \<lparr>Map = addLayer M (Visualized rgb) no_vis ''Pre-flood RGB'',
                messages = [Warning (no_images_found (strftime (start_date_post inp))
                                                      (strftime (end_date_post inp)))]\<rparr>))"
  using flood_layers_pre_empty [of cat inp roi M] flood_layers_post_empty [of cat inp roi M]
  by blast

theorem empty_query_skips_the_rest_witness:
  "november_catalog (strftime (start_date no_upload))
                    (strftime (end_date no_upload)) example_roi = []
   \<and> shown_layers (flood_layers november_catalog example_roi no_upload
                     (new_Map (0, 0) 9)) = []
   \<and> january_catalog (strftime (start_date no_upload))
                     (strftime (end_date no_upload)) example_roi \<noteq> []
   \<and> january_catalog (strftime (start_date_post no_upload))
                     (strftime (end_date_post no_upload)) example_roi = []
   \<and> shown_layers (flood_layers january_catalog example_roi no_upload
                     (new_Map (0, 0) 9)) = [''Pre-flood RGB'']"
proof -
  have dates:
    "strftime (start_date no_upload) = ''2024-01-23''"
    "strftime (end_date no_upload) = ''2024-01-24''"
    "strftime (start_date_post no_upload) = ''2024-11-23''"
    "strftime (end_date_post no_upload) = ''2024-11-24''"
    by (simp_all add: no_upload_def default_inputs_def strftime_def digit_def)
  have n: "november_catalog (strftime (start_date no_upload))
             (strftime (end_date no_upload)) example_roi = []"
    by (simp add: dates november_catalog_def)
  have j1: "january_catalog (strftime (start_date no_upload))
              (strftime (end_date no_upload)) example_roi \<noteq> []"
    by (simp add: dates january_catalog_def)
  have j2: "january_catalog (strftime (start_date_post no_upload))
              (strftime (end_date_post no_upload)) example_roi = []"
    by (simp add: dates january_catalog_def)
  from n empty_query_skips_the_rest [of november_catalog no_upload example_roi
      "new_Map (0, 0) 9"]
  have a: "flood_layers november_catalog example_roi no_upload (new_Map (0, 0) 9)
             = Inr \<lparr>Map = new_Map (0, 0) 9,
                    messages = [Warning (no_images_found
                                  (strftime (start_date no_upload))
                                  (strftime (end_date no_upload)))]\<rparr>"
    by blast
  from j1 j2 empty_query_skips_the_rest [of january_catalog no_upload example_roi
      "new_Map (0, 0) 9"]
  obtain rgb where
    b: "flood_layers january_catalog example_roi no_upload (new_Map (0, 0) 9)
          = Inr \<lparr>Map = addLayer (new_Map (0, 0) 9) (Visualized rgb) no_vis ''Pre-flood RGB'',
                 messages = [Warning (no_images_found
                               (strftime (start_date_post no_upload))
                               (strftime (end_date_post no_upload)))]\<rparr>"
    by blast
  have sa: "shown_layers (flood_layers november_catalog example_roi no_upload
              (new_Map (0, 0) 9)) = []"
    by (simp add: a shown_layers_def) (simp add: layer_names_def new_Map_def)
  have sb: "shown_layers (flood_layers january_catalog example_roi no_upload
              (new_Map (0, 0) 9)) = [''Pre-flood RGB'']"
    by (simp add: b shown_layers_def) (simp add: layer_names_def addLayer_def new_Map_def)
  from n j1 j2 sa sb show ?thesis
    by blast
qed

section \<open>Archive without a geometry file\<close>

text \<open>
  Claim C6, as stated: for every uploaded archive that contains no file ending in
  \<^verbatim>\<open>.shp\<close>, the loader returns \<open>None\<close> and emits an error, and never raises an unhandled
  fault. This fails: the loader extracts the archive before it looks at the member names,
  and the archive with the members \<^verbatim>\<open>a\<close> and \<^verbatim>\<open>a/b.txt\<close> has no geometry file, yet its
  extraction raises and the loader ends in that fault, with no message.
\<close>

theorem no_shp_never_raises_counterexample:
  "\<not> (\<not> endswith ''a'' ''.shp'' \<and> \<not> endswith ''a/b.txt'' ''.shp''
        \<and> namelist nested_zip = [''a'', ''a/b.txt'']
        \<longrightarrow> load_shapefile_from_zip nested_zip
              = Inr (None, [Error ''Shapefile (.shp) not found in the uploaded ZIP file.'']))"
proof -
  have "load_shapefile_from_zip nested_zip = Inl OSError"
    by (simp add: load_shapefile_from_zip_def nested_zip_def)
  then show ?thesis
    by (simp add: endswith_def nested_zip_def)
qed

text \<open>
  Claim C6, amended: for every uploaded archive that is extracted without a failure and
  none of whose member names ends in \<^verbatim>\<open>.shp\<close>, the loader returns \<open>None\<close> and emits an
  error without a fault, and the render pass does nothing further: whatever the libraries
  and the catalog would answer, it ends with the default map, without layers, and that one
  error message.
\<close>

theorem no_shp_no_processing:
  assumes "\<forall>file \<in> set names. \<not> endswith file ''.shp''"
  shows "load_shapefile_from_zip (Zip names None rd)
           = Inr (None, [Error ''Shapefile (.shp) not found in the uploaded ZIP file.''])
         \<and> (uploaded_zip inp = Some (Zip names None rd) \<longrightarrow>
              app g cat inp
                = Inr \<lparr>Map = new_Map (default_lat, default_lon) default_zoom,
                       messages =
                         [Error ''Shapefile (.shp) not found in the uploaded ZIP file.'']\<rparr>)"
  using assms by (simp add: app_def load_no_shp)

theorem no_shp_no_processing_witness:
  "\<not> endswith ''aoi.dbf'' ''.shp'' \<and> \<not> endswith ''aoi.prj'' ''.shp''
   \<and> \<not> endswith ''notes.txt'' ''.shp''
   \<and> namelist no_shp_zip = [''aoi.dbf'', ''aoi.prj'', ''notes.txt'']
   \<and> extractall no_shp_zip = None
   \<and> load_shapefile_from_zip no_shp_zip
       = Inr (None, [Error ''Shapefile (.shp) not found in the uploaded ZIP file.''])
   \<and> app example_geo november_catalog (default_inputs (Some no_shp_zip))
       = Inr \<lparr>Map = new_Map (0, 0) 2,
              messages = [Error ''Shapefile (.shp) not found in the uploaded ZIP file.'']\<rparr>"
proof -
  have h: "\<forall>file \<in> set [''aoi.dbf'', ''aoi.prj'', ''notes.txt'']. \<not> endswith file ''.shp''"
    by (simp add: endswith_def)
  have z: "no_shp_zip
             = Zip [''aoi.dbf'', ''aoi.prj'', ''notes.txt''] None (\<lambda>file. Inl ReadFileError)"
    by (simp add: no_shp_zip_def)
  have u: "uploaded_zip (default_inputs (Some no_shp_zip))
             = Some (Zip [''aoi.dbf'', ''aoi.prj'', ''notes.txt''] None
                       (\<lambda>file. Inl ReadFileError))"
    by (simp add: default_inputs_def z)
  from no_shp_no_processing [OF h, of "\<lambda>file. Inl ReadFileError"
      "default_inputs (Some no_shp_zip)" example_geo november_catalog] h u
  show ?thesis
    by (simp add: z default_lat_def default_lon_def default_zoom_def)
qed

section \<open>The pair returned by the query\<close>

text \<open>
  Claim C10: for every region and date range the query function returns either
  \<open>(None, None)\<close> or a pair of a composite and a collection, so its first component is
  \<open>None\<close> iff its second is; the script, which tests the first component only, never looks
  an attribute up on \<open>None\<close> and always completes.
\<close>

theorem get_S2_both_or_neither:
  "(fst (get_S2 cat roi s e) = (None, None)
      \<or> (\<exists>rgb coll. fst (get_S2 cat roi s e) = (Some rgb, Some coll)))
   \<and> ((fst (fst (get_S2 cat roi s e)) = None) = (snd (fst (get_S2 cat roi s e)) = None))
   \<and> (\<exists>out. flood_layers cat roi inp M = Inr out)"
proof -
  have "fst (get_S2 cat roi s e) = (None, None)
          \<or> (\<exists>rgb coll. fst (get_S2 cat roi s e) = (Some rgb, Some coll))"
  proof (cases "cat (strftime s) (strftime e) roi = []")
    case True
    then show ?thesis by (simp add: get_S2_empty)
  next
    case False
    from get_S2_nonempty [of cat s e roi] False show ?thesis by auto
  qed
  moreover from this
  have "(fst (fst (get_S2 cat roi s e)) = None) = (snd (fst (get_S2 cat roi s e)) = None)"
    by auto
  ultimately show ?thesis
    using flood_layers_returns [of cat roi inp M] by blast
qed

theorem get_S2_both_or_neither_witness:
  "fst (get_S2 november_catalog example_roi \<lparr>year = 2024, month = 1, day = 23\<rparr>
          \<lparr>year = 2024, month = 1, day = 24\<rparr>) = (None, None)
   \<and> fst (fst (get_S2 november_catalog example_roi \<lparr>year = 2024, month = 11, day = 23\<rparr>
                 \<lparr>year = 2024, month = 11, day = 24\<rparr>)) \<noteq> None
   \<and> snd (fst (get_S2 november_catalog example_roi \<lparr>year = 2024, month = 11, day = 23\<rparr>
                 \<lparr>year = 2024, month = 11, day = 24\<rparr>)) \<noteq> None"
proof -
  have a: "fst (get_S2 november_catalog example_roi \<lparr>year = 2024, month = 1, day = 23\<rparr>
             \<lparr>year = 2024, month = 1, day = 24\<rparr>) = (None, None)"
    by (simp add: get_S2_def november_catalog_def strftime_def digit_def)
  have b: "fst (fst (get_S2 november_catalog example_roi \<lparr>year = 2024, month = 11, day = 23\<rparr>
                 \<lparr>year = 2024, month = 11, day = 24\<rparr>)) \<noteq> None"
    by (simp add: get_S2_def november_catalog_def strftime_def digit_def Let_def)
  from a b get_S2_both_or_neither [of november_catalog example_roi
      "\<lparr>year = 2024, month = 11, day = 23\<rparr>" "\<lparr>year = 2024, month = 11, day = 24\<rparr>"
      no_upload "new_Map (0, 0) 9"]
  show ?thesis
    by auto
qed

end
